theory Spec2Isabelle
  imports Complex_Main "HOL-Library.Sublist" "HOL-Library.Multiset"
begin

section \<open>Agricompass API: a shallow embedding of main.py and schemas.py\<close>

text \<open>
  Conventions of the embedding.
  \<^item> A Python \<open>str\<close> is a \<open>string\<close>; the characters that matter to the handlers
    (the scheme word of the authorization header, hexadecimal digits, the space) are ASCII.
  \<^item> A Python \<open>float\<close> is idealised as a \<open>real\<close>: sums and products are exact, and
    \<open>round(x, 2)\<close> rounds the exact value, ties to the even neighbour.
  \<^item> An exception is a value of type \<open>error\<close>; a handler returns \<open>error + result\<close>,
    and a handler that writes returns the database as well.
  \<^item> A stored document is the dumped schema object together with its \<open>_id\<close> and its
    \<open>created_at\<close> stamp. A field that main.py reads with \<open>.get\<close> is optional in the
    stored document (\<open>None\<close>: the key is absent or null).
  \<^item> Field names carry the prefix of their class, since the classes of main.py and
    schemas.py share most field names.
\<close>

subsection \<open>Errors\<close>

datatype error =
    HTTPException (status_code: nat) (detail: string)
  | ValidationError
  | IndexError
  | KeyError
  | OperationFailure

subsection \<open>Strings\<close>

definition lower_char :: "char \<Rightarrow> char" where
  "lower_char c =
     (case map_of (zip ''ABCDEFGHIJKLMNOPQRSTUVWXYZ'' ''abcdefghijklmnopqrstuvwxyz'') c of
        None \<Rightarrow> c
      | Some l \<Rightarrow> l)"

text \<open>\<open>str.lower()\<close>\<close>
definition lower :: "string \<Rightarrow> string" where
  "lower s = map lower_char s"

text \<open>\<open>str.startswith(p)\<close>\<close>
definition startswith :: "string \<Rightarrow> string \<Rightarrow> bool" where
  "startswith s p \<longleftrightarrow> take (length p) s = p"

text \<open>\<open>str.isspace()\<close> on one character of the first 256 code points.\<close>
definition isspace :: "char \<Rightarrow> bool" where
  "isspace c \<longleftrightarrow>
     (let n = (of_char c :: nat)
      in (9 \<le> n \<and> n \<le> 13) \<or> (28 \<le> n \<and> n \<le> 32) \<or> n = 133 \<or> n = 160)"

text \<open>\<open>str.strip()\<close>\<close>
definition strip :: "string \<Rightarrow> string" where
  "strip s = rev (dropWhile isspace (rev (dropWhile isspace s)))"

text \<open>\<open>s.split(" ", 1)\<close>: at most one split, at the first space.\<close>
definition split1 :: "string \<Rightarrow> string list" where
  "split1 s =
     (case dropWhile (\<lambda>c. c \<noteq> CHR '' '') s of
        [] \<Rightarrow> [s]
      | _ # r \<Rightarrow> [takeWhile (\<lambda>c. c \<noteq> CHR '' '') s, r])"

subsection \<open>Identifiers\<close>

text \<open>
  A bson \<open>ObjectId\<close> is twelve bytes, written as 24 hexadecimal digits; two of them are
  equal when the bytes are, so the model keeps the digits in lower case.
\<close>
datatype objectid = ObjectId string

fun str_oid :: "objectid \<Rightarrow> string" where
  "str_oid (ObjectId h) = h"

definition is_hex :: "char \<Rightarrow> bool" where
  "is_hex c \<longleftrightarrow> c \<in> set ''0123456789abcdefABCDEF''"

text \<open>What the constructor \<open>ObjectId(s)\<close> accepts of a string: 24 hexadecimal digits.\<close>
definition is_valid :: "string \<Rightarrow> bool" where
  "is_valid s \<longleftrightarrow> length s = 24 \<and> list_all is_hex s"

text \<open>main.py, \<open>oid\<close>: any failure of the constructor becomes a 400.\<close>
definition oid :: "string \<Rightarrow> error + objectid" where
  "oid s =
     (if is_valid s then Inr (ObjectId (lower s))
      else Inl (HTTPException 400 ''Invalid id format''))"

subsection \<open>Schemas and stored documents\<close>

record 'a document =
  doc_id :: objectid
  created_at :: nat
  doc :: 'a

text \<open>A serialized document: \<open>_id\<close> is replaced by \<open>id\<close>, the identifier as a string.\<close>
record 'a serialized =
  ser_id :: string
  ser_created_at :: nat
  ser_doc :: 'a

text \<open>main.py, \<open>serialize_doc\<close>\<close>
definition serialize_doc :: "'a document \<Rightarrow> 'a serialized" where
  "serialize_doc d =
     \<lparr>ser_id = str_oid (doc_id d), ser_created_at = created_at d, ser_doc = doc d\<rparr>"

text \<open>schemas.py, \<open>User\<close>\<close>
record User =
  user_name :: "string option"
  user_email :: string
  user_password_hash :: "string option"
  user_role :: "string option"
  user_phone :: "string option"
  user_region :: "string option"
  user_verified :: bool
  user_token :: "string option"

text \<open>schemas.py, \<open>Listing\<close>\<close>
record Listing =
  l_farmer_id :: string
  l_title :: "string option"
  l_category :: string
  l_description :: "string option"
  l_unit :: string
  l_quantity_available :: real
  l_unit_price :: "real option"
  l_region :: "string option"
  l_quality_grade :: "string option"
  l_status :: "string option"

text \<open>schemas.py, \<open>OrderItem\<close>\<close>
record OrderItem =
  oi_listing_id :: string
  oi_quantity :: real
  oi_unit_price :: real
  oi_title :: string

text \<open>schemas.py, \<open>Order\<close>\<close>
record Order =
  o_buyer_id :: string
  o_items :: "OrderItem list"
  o_total_amount :: real
  o_status :: string
  o_delivery_terms :: "string option"
  o_payment_method :: "string option"

text \<open>The collections that the handlers below read and write.\<close>
record db =
  user_coll :: "User document list"
  listing_coll :: "Listing document list"
  order_coll :: "Order document list"

text \<open>\<open>collection.find_one(filter)\<close>: the first document, in stored order, that matches.\<close>
definition find_one :: "('a document \<Rightarrow> bool) \<Rightarrow> 'a document list \<Rightarrow> 'a document option" where
  "find_one flt coll = find flt coll"

text \<open>
  Modelled from the spec: \<open>database.create_document\<close> is imported by main.py and is not
  among the sources. The persistence gateway's create stores the dumped object as a new
  record that "carries a unique identifier and a creation timestamp used for descending
  sort order", and main.py uses the returned value as the new record's id string. The
  identifier and the time are supplied by the environment of the call.
\<close>
definition create_document ::
  "'a document list \<Rightarrow> objectid \<Rightarrow> nat \<Rightarrow> 'a \<Rightarrow> string \<times> 'a document list" where
  "create_document coll new_id now data =
     (str_oid new_id, coll @ [\<lparr>doc_id = new_id, created_at = now, doc = data\<rparr>])"

text \<open>\<open>cursor.sort("created_at", -1)\<close>: newest first, documents of equal stamp in stored order.\<close>
fun insort_desc :: "'a document \<Rightarrow> 'a document list \<Rightarrow> 'a document list" where
  "insort_desc d [] = [d]"
| "insort_desc d (e # es) =
     (if created_at e \<le> created_at d then d # e # es else e # insort_desc d es)"

definition sort_created_desc :: "'a document list \<Rightarrow> 'a document list" where
  "sort_created_desc ds = foldr insort_desc ds []"

subsection \<open>Auth dependency\<close>

record AuthedUser =
  au_id :: string
  au_role :: string
  au_name :: "string option"

text \<open>main.py, \<open>get_current_user\<close>: the header is \<open>None\<close> when the request has none.\<close>
definition get_current_user :: "db \<Rightarrow> string option \<Rightarrow> error + AuthedUser" where
  "get_current_user d authorization =
     (case authorization of
        None \<Rightarrow> Inl (HTTPException 401 ''Unauthorized'')
      | Some a \<Rightarrow>
          if a = [] \<or> \<not> startswith (lower a) ''bearer ''
          then Inl (HTTPException 401 ''Unauthorized'')
          else (case split1 a of
                  [_, rest] \<Rightarrow>
                    (let token = strip rest in
                     case find_one (\<lambda>u. user_token (doc u) = Some token) (user_coll d) of
                       None \<Rightarrow> Inl (HTTPException 401 ''Invalid token'')
                     | Some user \<Rightarrow>
                         (let s = serialize_doc user in
                          Inr \<lparr>au_id = ser_id s,
                               au_role = (case user_role (ser_doc s) of
                                            None \<Rightarrow> ''farmer'' | Some r \<Rightarrow> r),
                               au_name = user_name (ser_doc s)\<rparr>))
                | _ \<Rightarrow> Inl IndexError))"

subsection \<open>Auth routes\<close>

text \<open>
  \<open>hashlib.sha256(s.encode()).hexdigest()\<close> is the parameter \<open>sha256\<close> of the two
  handlers: nothing below depends on which function it is.
\<close>
definition hash_password :: "(string \<Rightarrow> string) \<Rightarrow> string \<Rightarrow> string" where
  "hash_password sha256 pw = sha256 pw"

record SignUpBody =
  su_name :: string
  su_email :: string
  su_password :: string
  su_role :: string
  su_phone :: "string option"
  su_region :: "string option"

text \<open>The record returned by signup and login.\<close>
record AuthResult =
  ar_id :: string
  ar_token :: string
  ar_role :: string
  ar_name :: "string option"

text \<open>schemas.py: the \<open>Literal\<close> type of \<open>User.role\<close>, checked when the object is built.\<close>
definition validate_user :: "User \<Rightarrow> error + User" where
  "validate_user u =
     (if user_role u \<in> Some ` set [''farmer'', ''buyer'', ''officer'', ''admin''] then Inr u
      else Inl ValidationError)"

text \<open>main.py, \<open>signup\<close>\<close>
definition signup ::
  "(string \<Rightarrow> string) \<Rightarrow> db \<Rightarrow> objectid \<Rightarrow> nat \<Rightarrow> SignUpBody \<Rightarrow> (error + AuthResult) \<times> db" where
  "signup sha256 d new_id now body =
     (case find_one (\<lambda>u. user_email (doc u) = su_email body) (user_coll d) of
        Some existing \<Rightarrow> (Inl (HTTPException 400 ''Email already registered''), d)
      | None \<Rightarrow>
          (let token = sha256 (su_email body @ '':'' @ su_role body) in
           case validate_user
                  \<lparr>user_name = Some (su_name body),
                   user_email = su_email body,
                   user_password_hash = Some (hash_password sha256 (su_password body)),
                   user_role = Some (su_role body),
                   user_phone = su_phone body,
                   user_region = su_region body,
                   user_verified = False,
                   user_token = Some token\<rparr> of
             Inl e \<Rightarrow> (Inl e, d)
           | Inr user \<Rightarrow>
               (let (user_id, coll) = create_document (user_coll d) new_id now user in
                (Inr \<lparr>ar_id = user_id, ar_token = token, ar_role = su_role body,
                      ar_name = Some (su_name body)\<rparr>,
                 d\<lparr>user_coll := coll\<rparr>))))"






subsection \<open>Listings\<close>

text \<open>The truth value of an optional string: \<open>None\<close> and the empty string are false.\<close>
definition truthy :: "string option \<Rightarrow> bool" where
  "truthy s \<longleftrightarrow> s \<noteq> None \<and> s \<noteq> Some []"

text \<open>
  The filter dictionary that \<open>get_listings\<close> builds, as the predicate MongoDB evaluates on
  one stored listing: equality on a field holds only when the field is present, and so do
  the comparisons and the regular expression. \<open>m\<close> is the compiled title pattern, if
  the request has one.
\<close>
definition listing_filter ::
  "string option \<Rightarrow> string option \<Rightarrow> (string \<Rightarrow> bool) option \<Rightarrow> real option \<Rightarrow> real option \<Rightarrow>
   Listing document \<Rightarrow> bool" where
  "listing_filter category region m min_price max_price l \<longleftrightarrow>
     l_status (doc l) = Some ''active''
     \<and> (truthy category \<longrightarrow> Some (l_category (doc l)) = category)
     \<and> (truthy region \<longrightarrow> l_region (doc l) = region)
     \<and> (min_price \<noteq> None \<or> max_price \<noteq> None \<longrightarrow>
          (case l_unit_price (doc l) of
             None \<Rightarrow> False
           | Some p \<Rightarrow> (case min_price of None \<Rightarrow> True | Some lo \<Rightarrow> lo \<le> p)
                      \<and> (case max_price of None \<Rightarrow> True | Some hi \<Rightarrow> p \<le> hi)))
     \<and> (case m of
          None \<Rightarrow> True
        | Some matches \<Rightarrow> (case l_title (doc l) of None \<Rightarrow> False | Some t \<Rightarrow> matches t))"

text \<open>\<open>cursor.limit(n)\<close>: pymongo reads 0 as no limit.\<close>
definition limit_docs :: "nat \<Rightarrow> 'a list \<Rightarrow> 'a list" where
  "limit_docs n ds = (if n = 0 then ds else take n ds)"

text \<open>
  main.py, \<open>get_listings\<close>. The regular-expression engine of the database is the
  parameter \<open>regex_i\<close>: \<open>regex_i q\<close> is \<open>None\<close> when \<open>q\<close> does not compile (the query
  then fails), and else the case-insensitive search for \<open>q\<close> in a string. A cursor sorts
  before it limits, whatever the order of the two calls.
\<close>
definition get_listings ::
  "(string \<Rightarrow> (string \<Rightarrow> bool) option) \<Rightarrow> db \<Rightarrow> string option \<Rightarrow> string option \<Rightarrow> string option \<Rightarrow>
   real option \<Rightarrow> real option \<Rightarrow> nat \<Rightarrow> error + Listing serialized list" where
  "get_listings regex_i d category region q min_price max_price limit =
     (let run = (\<lambda>m. Inr (map serialize_doc
                   (limit_docs limit
                      (sort_created_desc
                         (filter (listing_filter category region m min_price max_price)
                            (listing_coll d))))))
      in if truthy q
         then (case regex_i (the q) of
                 None \<Rightarrow> Inl OperationFailure
               | Some matches \<Rightarrow> run (Some matches))
         else run None)"

subsection \<open>Orders\<close>

record OrderItemIn =
  in_listing_id :: string
  in_quantity :: real

record CreateOrderBody =
  co_items :: "OrderItemIn list"
  co_delivery_terms :: "string option"
  co_payment_method :: "string option"

record CreateOrderResult =
  cor_id :: string
  cor_total :: real
  cor_status :: string

text \<open>\<open>round(x, 2)\<close> on the exact value: the nearest hundredth, a tie to the even one.\<close>
definition round2 :: "real \<Rightarrow> real" where
  "round2 x =
     (let y = x * 100; f = \<lfloor>y\<rfloor>; r = y - of_int f
      in of_int (if r < 1 / 2 then f
                 else if 1 / 2 < r then f + 1
                 else if even f then f else f + 1) / 100)"

text \<open>The item appended to \<open>items_out\<close> for a request item and the listing found for it.\<close>
definition snapshot :: "OrderItemIn \<Rightarrow> Listing document \<Rightarrow> OrderItem" where
  "snapshot it ldoc =
     \<lparr>oi_listing_id = in_listing_id it,
      oi_quantity = in_quantity it,
      oi_unit_price = (case l_unit_price (doc ldoc) of None \<Rightarrow> 0 | Some p \<Rightarrow> p),
      oi_title = (case l_title (doc ldoc) of None \<Rightarrow> ''Produce'' | Some t \<Rightarrow> t)\<rparr>"

text \<open>
  main.py, \<open>create_order\<close>: the \<open>for\<close> loop over \<open>body.items\<close>, with the two
  accumulators \<open>items_out\<close> and \<open>total\<close> (here \<open>tot\<close>). A \<open>raise\<close> leaves the loop with the error.
\<close>
fun order_loop ::
  "Listing document list \<Rightarrow> OrderItemIn list \<Rightarrow> OrderItem list \<Rightarrow> real \<Rightarrow>
   error + (OrderItem list \<times> real)" where
  "order_loop ls [] items_out tot = Inr (items_out, tot)"
| "order_loop ls (it # its) items_out tot =
     (case oid (in_listing_id it) of
        Inl e \<Rightarrow> Inl e
      | Inr i \<Rightarrow>
          (case find_one (\<lambda>l. doc_id l = i) ls of
             None \<Rightarrow> Inl (HTTPException 404 (''Listing not found: '' @ in_listing_id it))
           | Some ldoc \<Rightarrow>
               if l_status (doc ldoc) \<noteq> Some ''active''
               then Inl (HTTPException 400 (''Listing not active: '' @ in_listing_id it))
               else if in_quantity it \<le> 0
               then Inl (HTTPException 400 ''Quantity must be > 0'')
               else order_loop ls its
                      (items_out @ [snapshot it ldoc])
                      (tot + oi_unit_price (snapshot it ldoc) * in_quantity it)))"

text \<open>schemas.py: the field constraints of \<open>OrderItem\<close> and \<open>Order\<close>, checked when the
  \<open>Order\<close> object is built.\<close>
definition validate_item :: "OrderItem \<Rightarrow> bool" where
  "validate_item i \<longleftrightarrow> 0 < oi_quantity i \<and> 0 \<le> oi_unit_price i"

definition validate_order :: "Order \<Rightarrow> error + Order" where
  "validate_order ord =
     (if list_all validate_item (o_items ord) \<and> 0 \<le> o_total_amount ord
         \<and> o_status ord \<in> set [''pending'', ''confirmed'', ''cancelled'', ''completed'']
      then Inr ord else Inl ValidationError)"

text \<open>\<open>current.role not in ("buyer", "admin")\<close>\<close>
definition buyer_or_admin :: "AuthedUser \<Rightarrow> bool" where
  "buyer_or_admin current \<longleftrightarrow> au_role current = ''buyer'' \<or> au_role current = ''admin''"

text \<open>main.py, \<open>create_order\<close>\<close>
definition create_order ::
  "db \<Rightarrow> objectid \<Rightarrow> nat \<Rightarrow> CreateOrderBody \<Rightarrow> AuthedUser \<Rightarrow> (error + CreateOrderResult) \<times> db" where
  "create_order d new_id now body current =
     (if \<not> buyer_or_admin current
      then (Inl (HTTPException 403 ''Only buyers can place orders''), d)
      else if co_items body = []
      then (Inl (HTTPException 400 ''No items provided''), d)
      else (case order_loop (listing_coll d) (co_items body) [] 0 of
              Inl e \<Rightarrow> (Inl e, d)
            | Inr (items_out, tot) \<Rightarrow>
                (case validate_order
                        \<lparr>o_buyer_id = au_id current,
                         o_items = items_out,
                         o_total_amount = round2 tot,
                         o_status = ''pending'',
                         o_delivery_terms = co_delivery_terms body,
                         o_payment_method = co_payment_method body\<rparr> of
                   Inl e \<Rightarrow> (Inl e, d)
                 | Inr ord \<Rightarrow>
                     (let (order_id, coll) = create_document (order_coll d) new_id now ord in
                      (Inr \<lparr>cor_id = order_id, cor_total = round2 tot,
                            cor_status = ''pending''\<rparr>,
                       d\<lparr>order_coll := coll\<rparr>)))))"

text \<open>main.py, \<open>my_orders\<close>\<close>
definition my_orders :: "db \<Rightarrow> AuthedUser \<Rightarrow> error + Order serialized list" where
  "my_orders d current =
     (if \<not> buyer_or_admin current
      then Inl (HTTPException 403 ''Only buyers can view their orders'')
      else Inr (map serialize_doc
                  (sort_created_desc
                     (filter (\<lambda>ord. o_buyer_id (doc ord) = au_id current) (order_coll d)))))"

subsection \<open>A fragment of the regular expressions of the database\<close>

text \<open>
  The characters that the pattern language gives a meaning of their own; \<open>CHR 0x5C\<close>
  is the backslash.
\<close>
definition metachars :: "char set" where
  "metachars = insert (CHR 0x5C) (set ''.^$*+?()[]{}|'')"

text \<open>
  The engine restricted to patterns made of literal characters and the dot, with the
  option \<open>i\<close>: a literal matches itself in either case, a dot matches any character but
  the line feed, and the pattern may match anywhere in the subject. Patterns that use
  another metacharacter are outside the fragment, and this engine does not compile them.
\<close>
fun match_here :: "string \<Rightarrow> string \<Rightarrow> bool" where
  "match_here [] t = True"
| "match_here (p # ps) [] = False"
| "match_here (p # ps) (c # cs) =
     ((if p = CHR ''.'' then c \<noteq> CHR 0x0A else lower_char p = lower_char c)
      \<and> match_here ps cs)"

fun search_i :: "string \<Rightarrow> string \<Rightarrow> bool" where
  "search_i p [] = match_here p []"
| "search_i p (c # cs) = (match_here p (c # cs) \<or> search_i p cs)"

definition regex_fragment :: "string \<Rightarrow> (string \<Rightarrow> bool) option" where
  "regex_fragment q =
     (if \<exists>c \<in> set q. c \<in> metachars \<and> c \<noteq> CHR ''.'' then None else Some (search_i q))"

subsection \<open>Notions of the specification\<close>

text \<open>
  The error kinds of the specification, and the kind that a client reads off a raised
  error: the status code of an \<open>HTTPException\<close> (400 bad request, 401 unauthorized,
  403 forbidden, 404 not found, 409 conflict); any other exception surfaces as an
  unclassified internal error.
\<close>
datatype error_kind = BadRequest | Unauthorized | Forbidden | NotFound | Conflict | Internal

definition kind_of :: "error \<Rightarrow> error_kind" where
  "kind_of e =
     (case e of
        HTTPException c _ \<Rightarrow>
          (if c = 400 then BadRequest
           else if c = 401 then Unauthorized
           else if c = 403 then Forbidden
           else if c = 404 then NotFound
           else if c = 409 then Conflict
           else Internal)
      | _ \<Rightarrow> Internal)"

text \<open>The listing that an order item refers to, if its id is well formed and stored.\<close>
definition lookup_listing :: "Listing document list \<Rightarrow> string \<Rightarrow> Listing document option" where
  "lookup_listing ls s =
     (case oid s of Inl _ \<Rightarrow> None | Inr i \<Rightarrow> find_one (\<lambda>l. doc_id l = i) ls)"

text \<open>An order item passes validation: its listing exists and is active, its quantity is
  positive.\<close>
definition item_passes :: "Listing document list \<Rightarrow> OrderItemIn \<Rightarrow> bool" where
  "item_passes ls it \<longleftrightarrow>
     (case lookup_listing ls (in_listing_id it) of
        None \<Rightarrow> False
      | Some ldoc \<Rightarrow> l_status (doc ldoc) = Some ''active'' \<and> 0 < in_quantity it)"

text \<open>The snapshot of a valid order item against the listings of the call.\<close>
definition snapshot_of :: "Listing document list \<Rightarrow> OrderItemIn \<Rightarrow> OrderItem" where
  "snapshot_of ls it = snapshot it (the (lookup_listing ls (in_listing_id it)))"

text \<open>Newest first.\<close>
definition newest_first :: "'a document list \<Rightarrow> bool" where
  "newest_first ds \<longleftrightarrow> sorted_wrt (\<lambda>a b. created_at b \<le> created_at a) ds"


subsection \<open>A small database\<close>

text \<open>
  The example of the specification: Amara, a farmer, lists 100 kg of maize at 2.5; Bola is
  a buyer. Two more listings: one that is sold, and one whose stored record has neither a
  title nor a price. Chidi is an admin, Dayo a user who has not been given a token yet.
\<close>
definition amara :: "User document" where
  "amara =
     \<lparr>doc_id = ObjectId ''64a000000000000000000001'', created_at = 1,
      doc = \<lparr>user_name = Some ''Amara'', user_email = ''a@x.com'',
             user_password_hash = Some ''#pw123'', user_role = Some ''farmer'',
             user_phone = None, user_region = None, user_verified = False,
             user_token = Some ''#a@x.com:farmer''\<rparr>\<rparr>"

definition bola :: "User document" where
  "bola =
     \<lparr>doc_id = ObjectId ''64a000000000000000000002'', created_at = 2,
      doc = \<lparr>user_name = Some ''Bola'', user_email = ''b@x.com'',
             user_password_hash = Some ''#secret'', user_role = Some ''buyer'',
             user_phone = None, user_region = None, user_verified = False,
             user_token = Some ''#b@x.com:buyer''\<rparr>\<rparr>"

definition chidi :: "User document" where
  "chidi =
     \<lparr>doc_id = ObjectId ''64a000000000000000000003'', created_at = 3,
      doc = \<lparr>user_name = Some ''Chidi'', user_email = ''c@x.com'',
             user_password_hash = Some ''#root'', user_role = Some ''admin'',
             user_phone = None, user_region = None, user_verified = True,
             user_token = Some ''#c@x.com:admin''\<rparr>\<rparr>"

definition dayo :: "User document" where
  "dayo =
     \<lparr>doc_id = ObjectId ''64a000000000000000000004'', created_at = 4,
      doc = \<lparr>user_name = Some ''Dayo'', user_email = ''d@x.com'',
             user_password_hash = Some ''#hunter2'', user_role = None,
             user_phone = None, user_region = None, user_verified = False,
             user_token = None\<rparr>\<rparr>"

definition maize :: "Listing document" where
  "maize =
     \<lparr>doc_id = ObjectId ''64b000000000000000000001'', created_at = 10,
      doc = \<lparr>l_farmer_id = ''64a000000000000000000001'', l_title = Some ''Maize'',
             l_category = ''grains'', l_description = None, l_unit = ''kg'',
             l_quantity_available = 100, l_unit_price = Some (5 / 2),
             l_region = Some ''North'', l_quality_grade = None,
             l_status = Some ''active''\<rparr>\<rparr>"

definition beans :: "Listing document" where
  "beans =
     \<lparr>doc_id = ObjectId ''64b000000000000000000002'', created_at = 11,
      doc = \<lparr>l_farmer_id = ''64a000000000000000000001'', l_title = Some ''Beans'',
             l_category = ''legumes'', l_description = None, l_unit = ''bag'',
             l_quantity_available = 20, l_unit_price = Some 4,
             l_region = Some ''North'', l_quality_grade = Some ''A'',
             l_status = Some ''sold''\<rparr>\<rparr>"

definition bare :: "Listing document" where
  "bare =
     \<lparr>doc_id = ObjectId ''64b000000000000000000003'', created_at = 12,
      doc = \<lparr>l_farmer_id = ''64a000000000000000000001'', l_title = None,
             l_category = ''other'', l_description = None, l_unit = ''kg'',
             l_quantity_available = 1, l_unit_price = None,
             l_region = None, l_quality_grade = None,
             l_status = Some ''active''\<rparr>\<rparr>"

definition order_of :: "string \<Rightarrow> nat \<Rightarrow> string \<Rightarrow> Order document" where
  "order_of i t buyer =
     \<lparr>doc_id = ObjectId i, created_at = t,
      doc = \<lparr>o_buyer_id = buyer, o_items = [], o_total_amount = 0, o_status = ''pending'',
             o_delivery_terms = None, o_payment_method = None\<rparr>\<rparr>"

definition db0 :: db where
  "db0 =
     \<lparr>user_coll = [amara, bola, chidi, dayo],
      listing_coll = [maize, beans, bare],
      order_coll =
        [order_of ''64c000000000000000000001'' 20 ''64a000000000000000000002'',
         order_of ''64c000000000000000000002'' 21 ''64a000000000000000000003'',
         order_of ''64c000000000000000000003'' 22 ''64a000000000000000000002'']\<rparr>"

text \<open>A stand-in for the hash in the examples: any function will do.\<close>
definition mark :: "string \<Rightarrow> string" where
  "mark s = CHR ''#'' # s"

definition as_buyer :: AuthedUser where
  "as_buyer = \<lparr>au_id = ''64a000000000000000000002'', au_role = ''buyer'', au_name = Some ''Bola''\<rparr>"

definition as_admin :: AuthedUser where
  "as_admin = \<lparr>au_id = ''64a000000000000000000003'', au_role = ''admin'', au_name = Some ''Chidi''\<rparr>"

definition as_farmer :: AuthedUser where
  "as_farmer = \<lparr>au_id = ''64a000000000000000000001'', au_role = ''farmer'', au_name = Some ''Amara''\<rparr>"

definition cart :: "(string \<times> real) list \<Rightarrow> CreateOrderBody" where
  "cart xs =
     \<lparr>co_items = map (\<lambda>(i, q). \<lparr>in_listing_id = i, in_quantity = q\<rparr>) xs,
      co_delivery_terms = None, co_payment_method = None\<rparr>"

definition amara_again :: SignUpBody where
  "amara_again =
     \<lparr>su_name = ''Amara II'', su_email = ''a@x.com'', su_password = ''other'',
      su_role = ''buyer'', su_phone = None, su_region = None\<rparr>"



section \<open>Properties\<close>

subsection \<open>Sorting and limiting\<close>

lemma mset_insort_desc: "mset (insort_desc d xs) = add_mset d (mset xs)"
  by (induction xs) simp_all

lemma mset_sort_created_desc: "mset (sort_created_desc xs) = mset xs"
  unfolding sort_created_desc_def by (induction xs) (simp_all add: mset_insort_desc)

lemma set_insort_desc: "set (insort_desc d xs) = insert d (set xs)"
  by (induction xs) auto

lemma set_sort_created_desc: "set (sort_created_desc xs) = set xs"
  unfolding sort_created_desc_def by (induction xs) (simp_all add: set_insort_desc)

lemma newest_first_insort:
  "newest_first xs \<Longrightarrow> newest_first (insort_desc d xs)"
  unfolding newest_first_def by (induction xs) (auto simp: set_insort_desc)

lemma newest_first_sort: "newest_first (sort_created_desc xs)"
  unfolding sort_created_desc_def
  by (induction xs) (simp_all add: newest_first_insort, simp add: newest_first_def)

lemma set_limit_docs: "set (limit_docs n xs) \<subseteq> set xs"
  unfolding limit_docs_def by (simp add: set_take_subset)

lemma order_loop_pass:
  assumes "item_passes ls it"
  shows "order_loop ls (it # its) items_out tot =
         order_loop ls its (items_out @ [snapshot_of ls it])
           (tot + oi_unit_price (snapshot_of ls it) * in_quantity it)"
proof -
  from assms obtain ldoc where l: "lookup_listing ls (in_listing_id it) = Some ldoc"
    and a: "l_status (doc ldoc) = Some ''active''" and q: "0 < in_quantity it"
    unfolding item_passes_def by (cases "lookup_listing ls (in_listing_id it)") simp_all
  from l obtain i where i: "oid (in_listing_id it) = Inr i"
    and f: "find_one (\<lambda>l. doc_id l = i) ls = Some ldoc"
    unfolding lookup_listing_def by (cases "oid (in_listing_id it)") simp_all
  show ?thesis using i f a q l by (simp add: snapshot_of_def)
qed

lemma order_loop_fail:
  assumes "\<not> item_passes ls it"
  shows "\<exists>e. order_loop ls (it # its) items_out tot = Inl e"
proof (cases "oid (in_listing_id it)")
  case (Inl e)
  then show ?thesis by simp
next
  case (Inr i)
  show ?thesis
  proof (cases "find_one (\<lambda>l. doc_id l = i) ls")
    case None
    with Inr show ?thesis by simp
  next
    case (Some ldoc)
    with Inr assms have "l_status (doc ldoc) \<noteq> Some ''active'' \<or> in_quantity it \<le> 0"
      unfolding item_passes_def lookup_listing_def by auto
    with Inr Some show ?thesis by auto
  qed
qed


lemma order_loop_prefix:
  "\<forall>x \<in> set pre. item_passes ls x \<Longrightarrow>
   order_loop ls (pre @ its) items_out tot =
     order_loop ls its (items_out @ map (snapshot_of ls) pre)
       (tot + (\<Sum>x\<leftarrow>pre. oi_unit_price (snapshot_of ls x) * in_quantity x))"
proof (induction pre arbitrary: items_out tot)
  case Nil
  show ?case by simp
next
  case (Cons p pre)
  then have p: "item_passes ls p" and rest: "\<forall>x \<in> set pre. item_passes ls x" by simp_all
  show ?case
    by (simp only: append_Cons order_loop_pass [OF p] Cons.IH [OF rest]) (simp add: add.assoc)
qed

lemma order_loop_some_fail:
  assumes "\<exists>it \<in> set its. \<not> item_passes ls it"
  shows "\<exists>e. order_loop ls its items_out tot = Inl e"
proof -
  from split_list_first_prop [OF assms] obtain pre it post where
    its: "its = pre @ it # post" and bad: "\<not> item_passes ls it"
    and pre: "\<forall>x \<in> set pre. \<not> \<not> item_passes ls x"
    by blast
  from pre have pre': "\<forall>x \<in> set pre. item_passes ls x" by simp
  show ?thesis
    unfolding its order_loop_prefix [OF pre'] by (rule order_loop_fail [OF bad])
qed

subsection \<open>The item loop of order creation\<close>






lemma create_order_rejects:
  assumes "co_items body = [] \<or> (\<exists>it \<in> set (co_items body). \<not> item_passes (listing_coll d) it)"
  shows "\<exists>e. create_order d new_id now body current = (Inl e, d)"
proof (cases "buyer_or_admin current")
  case False
  then show ?thesis unfolding create_order_def by simp
next
  case True
  show ?thesis
  proof (cases "co_items body = []")
    case e: True
    with True show ?thesis unfolding create_order_def by simp
  next
    case ne: False
    with assms have "\<exists>it \<in> set (co_items body). \<not> item_passes (listing_coll d) it" by simp
    from order_loop_some_fail [OF this, of "[]" 0]
    obtain e where "order_loop (listing_coll d) (co_items body) [] 0 = Inl e" by blast
    with True ne show ?thesis unfolding create_order_def by simp
  qed
qed

subsection \<open>The example database\<close>


lemma lookup_beans: "lookup_listing (listing_coll db0) ''64b000000000000000000002'' = Some beans"
  by (simp add: lookup_listing_def oid_def is_valid_def is_hex_def lower_def lower_char_def
      find_one_def db0_def maize_def beans_def bare_def)





subsection \<open>Order creation: the total\<close>




subsection \<open>Order creation: all or nothing\<close>

text \<open>
  Claim C2. When the item list is empty, or some item fails validation (its id is
  malformed, its listing is absent or not active, or its quantity is not positive: the
  negation of \<open>item_passes\<close>), the call raises an error and returns the database as it
  was: no order is persisted, the order collection is unchanged.
\<close>
theorem create_order_all_or_nothing:
  assumes "co_items body = [] \<or> (\<exists>it \<in> set (co_items body). \<not> item_passes (listing_coll d) it)"
  shows "\<exists>e. create_order d new_id now body current = (Inl e, d)
           \<and> order_coll (snd (create_order d new_id now body current)) = order_coll d"
proof -
  from create_order_rejects [OF assms, of new_id now current]
  obtain e where "create_order d new_id now body current = (Inl e, d)" ..
  then show ?thesis by simp
qed

lemma item_passes_iff:
  "item_passes ls it \<longleftrightarrow>
     is_valid (in_listing_id it)
     \<and> (\<exists>ldoc. find_one (\<lambda>l. doc_id l = ObjectId (lower (in_listing_id it))) ls = Some ldoc
            \<and> l_status (doc ldoc) = Some ''active'')
     \<and> 0 < in_quantity it"
  unfolding item_passes_def lookup_listing_def oid_def
  by (cases "find_one (\<lambda>l. doc_id l = ObjectId (lower (in_listing_id it))) ls") simp_all

theorem create_order_all_or_nothing_witness:
  "\<not> item_passes (listing_coll db0) \<lparr>in_listing_id = ''64b000000000000000000002'', in_quantity = 1\<rparr>
   \<and> (\<exists>e. create_order db0 (ObjectId ''64c000000000000000000009'') 30
             (cart [(''64B000000000000000000001'', 10), (''64b000000000000000000002'', 1)])
             as_buyer = (Inl e, db0))"
proof -
  let ?bad = "\<lparr>in_listing_id = ''64b000000000000000000002'', in_quantity = 1\<rparr>"
  let ?body = "cart [(''64B000000000000000000001'', 10), (''64b000000000000000000002'', 1)]"
  have bad: "\<not> item_passes (listing_coll db0) ?bad"
    by (simp add: item_passes_def lookup_beans beans_def)
  have "?bad \<in> set (co_items ?body)" by (simp add: cart_def)
  with bad have "co_items ?body = [] \<or> (\<exists>it \<in> set (co_items ?body). \<not> item_passes (listing_coll db0) it)"
    by blast
  from create_order_all_or_nothing [OF this, of "ObjectId ''64c000000000000000000009''" 30 as_buyer] bad
  show ?thesis by blast
qed



subsection \<open>Order creation: the order of the checks\<close>






subsection \<open>Order creation: listings without a price or a title\<close>




subsection \<open>Listing one's own orders\<close>

text \<open>
  Claim C8. \<open>my_orders\<close> fails with 403 (forbidden) unless the caller is a buyer or an
  admin; otherwise it returns exactly the stored orders whose \<open>buyer_id\<close> is the
  caller's id, each once, newest first. An admin is no exception: the orders returned to an
  admin are those whose \<open>buyer_id\<close> is the admin's own id.
\<close>
theorem my_orders_scoped:
  "(\<not> buyer_or_admin current \<longrightarrow>
      my_orders d current = Inl (HTTPException 403 ''Only buyers can view their orders''))
   \<and> (buyer_or_admin current \<longrightarrow>
        (\<exists>docs. my_orders d current = Inr (map serialize_doc docs)
           \<and> mset docs = filter_mset (\<lambda>ord. o_buyer_id (doc ord) = au_id current)
                            (mset (order_coll d))
           \<and> newest_first docs))
   \<and> (au_role current = ''admin'' \<longrightarrow>
        (\<exists>docs. my_orders d current = Inr (map serialize_doc docs)
           \<and> set docs = {ord \<in> set (order_coll d). o_buyer_id (doc ord) = au_id current}))"
proof (intro conjI impI)
  assume "\<not> buyer_or_admin current"
  then show "my_orders d current = Inl (HTTPException 403 ''Only buyers can view their orders'')"
    by (simp add: my_orders_def)
next
  assume "buyer_or_admin current"
  then have "my_orders d current = Inr (map serialize_doc (sort_created_desc
      (filter (\<lambda>ord. o_buyer_id (doc ord) = au_id current) (order_coll d))))"
    by (simp add: my_orders_def)
  then show "\<exists>docs. my_orders d current = Inr (map serialize_doc docs)
           \<and> mset docs = filter_mset (\<lambda>ord. o_buyer_id (doc ord) = au_id current)
                            (mset (order_coll d))
           \<and> newest_first docs"
    by (intro exI [of _ "sort_created_desc
      (filter (\<lambda>ord. o_buyer_id (doc ord) = au_id current) (order_coll d))"])
      (simp add: mset_sort_created_desc newest_first_sort)
next
  assume "au_role current = ''admin''"
  then have "my_orders d current = Inr (map serialize_doc (sort_created_desc
      (filter (\<lambda>ord. o_buyer_id (doc ord) = au_id current) (order_coll d))))"
    by (simp add: my_orders_def buyer_or_admin_def)
  then show "\<exists>docs. my_orders d current = Inr (map serialize_doc docs)
           \<and> set docs = {ord \<in> set (order_coll d). o_buyer_id (doc ord) = au_id current}"
    by (intro exI [of _ "sort_created_desc
      (filter (\<lambda>ord. o_buyer_id (doc ord) = au_id current) (order_coll d))"])
      (simp add: set_sort_created_desc)
qed

lemma serialize_doc_inj: "serialize_doc a = serialize_doc b \<Longrightarrow> a = b"
  by (cases a, cases b, cases "doc_id a", cases "doc_id b") (simp add: serialize_doc_def)

theorem my_orders_scoped_witness:
  "au_role as_admin = ''admin''
   \<and> my_orders db0 as_admin =
       Inr [serialize_doc (order_of ''64c000000000000000000002'' 21 ''64a000000000000000000003'')]
   \<and> \<not> buyer_or_admin as_farmer
   \<and> my_orders db0 as_farmer = Inl (HTTPException 403 ''Only buyers can view their orders'')"
proof -
  let ?mine = "order_of ''64c000000000000000000002'' 21 ''64a000000000000000000003''"
  have admin: "au_role as_admin = ''admin''" by (simp add: as_admin_def)
  have farmer: "\<not> buyer_or_admin as_farmer" by (simp add: buyer_or_admin_def as_farmer_def)
  from my_orders_scoped [of as_farmer db0] farmer
  have f: "my_orders db0 as_farmer = Inl (HTTPException 403 ''Only buyers can view their orders'')"
    by blast
  from my_orders_scoped [of as_admin db0] admin obtain docs where
    res: "my_orders db0 as_admin = Inr (map serialize_doc docs)"
    and m: "mset docs = filter_mset (\<lambda>ord. o_buyer_id (doc ord) = au_id as_admin)
                            (mset (order_coll db0))"
    by (auto simp: buyer_or_admin_def)
  have "filter_mset (\<lambda>ord. o_buyer_id (doc ord) = au_id as_admin) (mset (order_coll db0))
      = {#?mine#}"
    by (simp add: db0_def order_of_def as_admin_def)
  with m have "mset docs = mset [?mine]" by simp
  then have "docs = [?mine]" by (metis mset_single_iff_right mset.simps(1) mset.simps(2))
  with res admin farmer f show ?thesis by simp
qed


lemma get_listings_Inr:
  assumes "get_listings regex_i d category region q min_price max_price limit = Inr rs"
  shows "\<exists>m. rs = map serialize_doc (limit_docs limit (sort_created_desc
        (filter (listing_filter category region m min_price max_price) (listing_coll d))))"
proof (cases "truthy q")
  case False
  with assms show ?thesis unfolding get_listings_def Let_def by (intro exI [of _ None]) simp
next
  case True
  show ?thesis
  proof (cases "regex_i (the q)")
    case None
    with True assms show ?thesis unfolding get_listings_def Let_def by simp
  next
    case (Some matches)
    with True assms show ?thesis unfolding get_listings_def Let_def
      by (intro exI [of _ "Some matches"]) simp
  qed
qed

subsection \<open>Querying listings: only active ones\<close>

text \<open>
  Claim C4. Whatever the filters, the limit and the regular-expression engine, every
  listing that \<open>get_listings\<close> returns has the status "active".
\<close>
theorem get_listings_active:
  assumes "get_listings regex_i d category region q min_price max_price limit = Inr rs"
    and "r \<in> set rs"
  shows "l_status (ser_doc r) = Some ''active''"
proof -
  obtain m where rs: "rs = map serialize_doc (limit_docs limit (sort_created_desc
        (filter (listing_filter category region m min_price max_price) (listing_coll d))))"
    using get_listings_Inr [OF assms(1)] ..
  with assms(2) have "r \<in> serialize_doc ` set (limit_docs limit (sort_created_desc
        (filter (listing_filter category region m min_price max_price) (listing_coll d))))"
    by (simp only: set_map)
  then obtain l where l: "r = serialize_doc l"
      and mem: "l \<in> set (limit_docs limit (sort_created_desc
        (filter (listing_filter category region m min_price max_price) (listing_coll d))))"
    ..
  from mem have "l \<in> set (sort_created_desc
        (filter (listing_filter category region m min_price max_price) (listing_coll d)))"
    by (rule set_limit_docs [THEN subsetD])
  then have "listing_filter category region m min_price max_price l"
    by (simp add: set_sort_created_desc)
  then have "l_status (doc l) = Some ''active''"
    by (simp add: listing_filter_def)
  with l show ?thesis by (simp add: serialize_doc_def)
qed

lemma listings_db0:
  "get_listings regex_fragment db0 None None None None None 50 =
     Inr [serialize_doc bare, serialize_doc maize]"
  by (simp add: get_listings_def truthy_def listing_filter_def limit_docs_def
      sort_created_desc_def db0_def maize_def beans_def bare_def)

theorem get_listings_active_witness:
  "get_listings regex_fragment db0 None None None None None 50 =
     Inr [serialize_doc bare, serialize_doc maize]
   \<and> l_status (ser_doc (serialize_doc bare)) = Some ''active''
   \<and> l_status (ser_doc (serialize_doc maize)) = Some ''active''
   \<and> l_status (doc beans) = Some ''sold''"
proof -
  have "l_status (ser_doc (serialize_doc bare)) = Some ''active''"
    by (rule get_listings_active [OF listings_db0]) simp
  moreover have "l_status (ser_doc (serialize_doc maize)) = Some ''active''"
    by (rule get_listings_active [OF listings_db0]) simp
  moreover have "l_status (doc beans) = Some ''sold''" by (simp add: beans_def)
  ultimately show ?thesis using listings_db0 by simp
qed

lemma find_one_email:
  "find_one (\<lambda>u. user_email (doc u) = e) us \<noteq> None \<longleftrightarrow> (\<exists>u \<in> set us. user_email (doc u) = e)"
  unfolding find_one_def by (auto simp: find_None_iff)

lemma signup_duplicate:
  assumes "\<exists>u \<in> set (user_coll d). user_email (doc u) = su_email body"
  shows "signup sha256 d new_id now body =
           (Inl (HTTPException 400 ''Email already registered''), d)"
proof -
  from assms obtain u where "find_one (\<lambda>u. user_email (doc u) = su_email body) (user_coll d) = Some u"
    using find_one_email [of "su_email body" "user_coll d"] by auto
  then show ?thesis unfolding signup_def by simp
qed

lemma signup_Inr:
  assumes "signup sha256 d new_id now body = (Inr r, d')"
  shows "find_one (\<lambda>u. user_email (doc u) = su_email body) (user_coll d) = None
      \<and> ar_token r = sha256 (su_email body @ '':'' @ su_role body)
      \<and> ar_id r = str_oid new_id
      \<and> user_coll d' = user_coll d @
           [\<lparr>doc_id = new_id, created_at = now,
             doc = \<lparr>user_name = Some (su_name body),
                   user_email = su_email body,
                   user_password_hash = Some (hash_password sha256 (su_password body)),
                   user_role = Some (su_role body),
                   user_phone = su_phone body,
                   user_region = su_region body,
                   user_verified = False,
                   user_token = Some (sha256 (su_email body @ '':'' @ su_role body))\<rparr>\<rparr>]"
proof (cases "find_one (\<lambda>u. user_email (doc u) = su_email body) (user_coll d)")
  case (Some u)
  with assms show ?thesis unfolding signup_def by simp
next
  case None
  show ?thesis
  proof (cases "su_role body \<in> set [''farmer'', ''buyer'', ''officer'', ''admin'']")
    case False
    then have "Some (su_role body) \<notin> Some ` set [''farmer'', ''buyer'', ''officer'', ''admin'']"
      by blast
    with None assms show ?thesis
      unfolding signup_def validate_user_def Let_def by simp
  next
    case True
    then have "Some (su_role body) \<in> Some ` set [''farmer'', ''buyer'', ''officer'', ''admin'']"
      by blast
    with None assms show ?thesis
      unfolding signup_def validate_user_def Let_def create_document_def by auto
  qed
qed

subsection \<open>Signing up with a registered email\<close>

text \<open>
  Claim C3, as amended. A signup whose email is that of a stored user fails with status
  400, the status of a bad request, and the detail "Email already registered", and the
  database is returned as it was; in particular a second signup with the email of a
  successful one fails so. The claim as stated names the kind Conflict, which is not what
  the handler raises: see the counterexample below.
\<close>
theorem signup_duplicate_email:
  "((\<exists>u \<in> set (user_coll d). user_email (doc u) = su_email body) \<longrightarrow>
      signup sha256 d new_id now body = (Inl (HTTPException 400 ''Email already registered''), d)
      \<and> kind_of (HTTPException 400 ''Email already registered'') = BadRequest)
   \<and> (\<forall>r d'. signup sha256 d new_id now body = (Inr r, d') \<and> su_email body' = su_email body \<longrightarrow>
        signup sha256 d' new_id' now' body' =
          (Inl (HTTPException 400 ''Email already registered''), d'))"
proof (intro conjI impI allI)
  assume "\<exists>u \<in> set (user_coll d). user_email (doc u) = su_email body"
  then show "signup sha256 d new_id now body =
      (Inl (HTTPException 400 ''Email already registered''), d)"
    by (rule signup_duplicate)
next
  show "kind_of (HTTPException 400 ''Email already registered'') = BadRequest"
    by (simp add: kind_of_def)
next
  fix r d'
  assume h: "signup sha256 d new_id now body = (Inr r, d') \<and> su_email body' = su_email body"
  from signup_Inr [of sha256 d new_id now body r d'] h
  have "\<exists>u \<in> set (user_coll d'). user_email (doc u) = su_email body'" by simp
  then show "signup sha256 d' new_id' now' body' =
      (Inl (HTTPException 400 ''Email already registered''), d')"
    by (rule signup_duplicate)
qed

theorem signup_duplicate_email_counterexample:
  "signup mark db0 (ObjectId ''64a000000000000000000009'') 30 amara_again =
     (Inl (HTTPException 400 ''Email already registered''), db0)
   \<and> kind_of (HTTPException 400 ''Email already registered'') \<noteq> Conflict"
  by (simp add: signup_def find_one_def db0_def amara_def amara_again_def kind_of_def)

theorem signup_duplicate_email_witness:
  "user_email (doc amara) = su_email amara_again
   \<and> signup mark db0 (ObjectId ''64a000000000000000000009'') 30 amara_again =
       (Inl (HTTPException 400 ''Email already registered''), db0)
   \<and> kind_of (HTTPException 400 ''Email already registered'') = BadRequest"
proof -
  have e: "user_email (doc amara) = su_email amara_again"
    by (simp add: amara_def amara_again_def)
  moreover have "amara \<in> set (user_coll db0)" by (simp add: db0_def)
  ultimately have "\<exists>u \<in> set (user_coll db0). user_email (doc u) = su_email amara_again"
    by blast
  with signup_duplicate_email [of db0 amara_again mark "ObjectId ''64a000000000000000000009''" 30] e
  show ?thesis by blast
qed










subsection \<open>Tokens\<close>




end
